theory Spec2Isabelle
  imports Complex_Main
begin

section \<open>The simulation engine of app/services/simulation\_engine.py\<close>

text \<open>
  The engine computes, per decision kind, a year-by-year projection for every option and
  (for three of the four kinds) a Monte Carlo summary. Python floats are idealised as
  real numbers: every arithmetic operation of the source is the exact operation on
  \<^typ>\<open>real\<close>, and the only rounding is the explicit \<^verbatim>\<open>round(x, n)\<close> of the source.
  Python integers are \<^typ>\<open>int\<close>. Strings are byte lists, and \<^verbatim>\<open>str.lower\<close> is modelled
  on the ASCII letters.
\<close>

subsection \<open>Library functions used by the engine\<close>

definition lower_char :: "char \<Rightarrow> char" where
  "lower_char c =
     (let n = (of_char c :: nat) in if 65 \<le> n \<and> n \<le> 90 then char_of (n + 32) else c)"

definition lower :: "string \<Rightarrow> string" where
  "lower s = map lower_char s"

text \<open>\<^verbatim>\<open>round(x, ndigits)\<close>: the nearest multiple of \<open>10^-ndigits\<close>, ties to even.\<close>

definition round_half_even :: "real \<Rightarrow> int" where
  "round_half_even x =
     (let f = \<lfloor>x\<rfloor>; d = x - of_int f
      in if d < 1 / 2 then f else if 1 / 2 < d then f + 1 else if even f then f else f + 1)"

definition py_round :: "real \<Rightarrow> nat \<Rightarrow> real" where
  "py_round x ndigits = of_int (round_half_even (x * 10 ^ ndigits)) / 10 ^ ndigits"

text \<open>
  \<^verbatim>\<open>np.mean\<close>, \<^verbatim>\<open>np.std\<close> (population standard deviation) and \<^verbatim>\<open>np.percentile\<close> (default
  method: linear interpolation between the two order statistics around the virtual index
  \<open>(n - 1) * q / 100\<close>). They are applied to non-empty samples only, see the summaries below.
\<close>

definition np_mean :: "real list \<Rightarrow> real" where
  "np_mean xs = sum_list xs / real (length xs)"

definition np_std :: "real list \<Rightarrow> real" where
  "np_std xs = sqrt (np_mean (map (\<lambda>x. (x - np_mean xs)\<^sup>2) xs))"

definition np_percentile :: "real list \<Rightarrow> real \<Rightarrow> real" where
  "np_percentile xs q =
     (let arr = sort xs;
          values_count = length xs;
          virtual_index = real (values_count - 1) * (q / 100);
          previous_index = nat \<lfloor>virtual_index\<rfloor>;
          next_index = min (previous_index + 1) (values_count - 1);
          gamma = virtual_index - real previous_index
      in arr ! previous_index + (arr ! next_index - arr ! previous_index) * gamma)"

text \<open>
  The process-wide random source is a sequence of standard normal variates and a read
  position; \<^verbatim>\<open>np.random.normal(loc, scale)\<close> consumes one variate \<open>z\<close> and returns
  \<open>loc + scale * z\<close>.
\<close>

record rng =
  draws :: "nat \<Rightarrow> real"
  pos :: nat

definition normal :: "real \<Rightarrow> real \<Rightarrow> rng \<Rightarrow> real \<times> rng" where
  "normal loc scale g = (loc + scale * draws g (pos g), g\<lparr>pos := Suc (pos g)\<rparr>)"

subsection \<open>Data model\<close>

datatype DecisionType = RELOCATION | PURCHASE | JOB | INVESTMENT

text \<open>
  \<^verbatim>\<open>class DecisionType(str, Enum)\<close>: a member is its string value, and the dispatch of
  \<^verbatim>\<open>run_simulation\<close> compares with \<^verbatim>\<open>==\<close>.
\<close>

fun DecisionType_value :: "DecisionType \<Rightarrow> string" where
  "DecisionType_value RELOCATION = ''relocation''"
| "DecisionType_value PURCHASE = ''purchase''"
| "DecisionType_value JOB = ''job''"
| "DecisionType_value INVESTMENT = ''investment''"

datatype error =
  ValueError
| ZeroDivisionError
| EmptySampleError

text \<open>
  The keys of \<^verbatim>\<open>structured_data\<close> and \<^verbatim>\<open>external_data\<close> that the engine reads; a key
  that is absent is \<open>None\<close>. A cost-of-living entry is the list of its (component, amount)
  items, a tax entry a dictionary from rate names to rates.
\<close>

record structured_data =
  cities :: "string list option"
  options :: "string list option"
  user_context :: "(string \<rightharpoonup> real) option"
  budget :: "real option"
  amount :: "real option"

record external_data =
  cost_of_living :: "(string \<rightharpoonup> (string \<times> real) list) option"
  tax_rates :: "(string \<rightharpoonup> (string \<rightharpoonup> real)) option"

datatype yearly_point =
  RelocationPoint (year: int) (gross_income: real) (net_income: real)
    (total_expenses: real) (savings: real) (cumulative_savings: real)
| PurchasePoint (year: int) (current_value: real) (maintenance_cost: real)
    (total_cost_to_date: real) (net_value: real)
| JobPoint (year: int) (salary: real) (cumulative_earnings: real) (growth_rate: real)
| InvestmentPoint (year: int) (value_field: real) (total_return: real)
    (return_percentage: real)

record mc_summary =
  mean :: real
  std :: real
  p5 :: real
  p25 :: "real option"
  p50 :: "real option"
  p75 :: "real option"
  p95 :: real
  prob_loss :: "real option"

record metadata =
  time_horizon_years :: int
  monte_carlo_runs_key :: "int option"
  initial_amount :: "real option"
  simulation_date :: string

record simulation_output =
  projections :: "string \<rightharpoonup> yearly_point list"
  monte_carlo :: "(string \<rightharpoonup> mc_summary) option"
  metadata :: metadata

record SimulationEngine =
  time_horizon :: int
  monte_carlo_runs :: int

definition init :: "int \<Rightarrow> int \<Rightarrow> SimulationEngine" where
  "init time_horizon_years_arg monte_carlo_runs_arg =
     \<lparr>time_horizon = time_horizon_years_arg, monte_carlo_runs = monte_carlo_runs_arg\<rparr>"

text \<open>\<^verbatim>\<open>d.get(key, default)\<close> on an optional dictionary.\<close>

definition get_or :: "('k \<rightharpoonup> 'v) \<Rightarrow> 'k \<Rightarrow> 'v \<Rightarrow> 'v" where
  "get_or d k dflt = (case d k of None \<Rightarrow> dflt | Some v \<Rightarrow> v)"

definition dict_or_empty :: "('k \<rightharpoonup> 'v) option \<Rightarrow> ('k \<rightharpoonup> 'v)" where
  "dict_or_empty d = (case d of None \<Rightarrow> Map.empty | Some m \<Rightarrow> m)"

subsection \<open>The Monte Carlo samplers\<close>

text \<open>
  Each sampler runs \<^verbatim>\<open>range(self.monte_carlo_runs)\<close> trajectories of
  \<^verbatim>\<open>range(self.time_horizon)\<close> years; the first argument of the functions below counts
  the iterations that remain.
\<close>

fun savings_trajectory ::
  "nat \<Rightarrow> real \<Rightarrow> real \<Rightarrow> real \<Rightarrow> real \<Rightarrow> rng \<Rightarrow> real \<times> rng" where
  "savings_trajectory 0 salary_v cost cumulative tax_rate g = (cumulative, g)"
| "savings_trajectory (Suc n) salary_v cost cumulative tax_rate g =
     (let (salary_growth, g1) = normal 0.02 0.02 g;
          (inflation, g2) = normal 0.03 0.01 g1;
          salary' = salary_v * (1 + salary_growth);
          cost' = cost * (1 + inflation);
          net = salary' * (1 - tax_rate)
      in savings_trajectory n salary' cost' (cumulative + (net - cost')) tax_rate g2)"

fun savings_samples ::
  "nat \<Rightarrow> nat \<Rightarrow> real \<Rightarrow> real \<Rightarrow> real \<Rightarrow> rng \<Rightarrow> real list \<times> rng" where
  "savings_samples 0 horizon base_salary yearly_cost tax_rate g = ([], g)"
| "savings_samples (Suc runs) horizon base_salary yearly_cost tax_rate g =
     (let (cumulative, g1) = savings_trajectory horizon base_salary yearly_cost 0 tax_rate g;
          (rest, g2) = savings_samples runs horizon base_salary yearly_cost tax_rate g1
      in (cumulative # rest, g2))"

fun salary_trajectory :: "nat \<Rightarrow> real \<Rightarrow> real \<Rightarrow> rng \<Rightarrow> real \<times> rng" where
  "salary_trajectory 0 salary_v expected_growth g = (salary_v, g)"
| "salary_trajectory (Suc n) salary_v expected_growth g =
     (let (growth, g1) = normal expected_growth 0.03 g
      in salary_trajectory n (salary_v * (1 + growth)) expected_growth g1)"

fun salary_samples :: "nat \<Rightarrow> nat \<Rightarrow> real \<Rightarrow> real \<Rightarrow> rng \<Rightarrow> real list \<times> rng" where
  "salary_samples 0 horizon base_salary expected_growth g = ([], g)"
| "salary_samples (Suc runs) horizon base_salary expected_growth g =
     (let (final, g1) = salary_trajectory horizon base_salary expected_growth g;
          (rest, g2) = salary_samples runs horizon base_salary expected_growth g1
      in (final # rest, g2))"

fun investment_trajectory :: "nat \<Rightarrow> real \<Rightarrow> real \<Rightarrow> real \<Rightarrow> rng \<Rightarrow> real \<times> rng" where
  "investment_trajectory 0 v expected_return volatility g = (v, g)"
| "investment_trajectory (Suc n) v expected_return volatility g =
     (let (annual_return, g1) = normal expected_return volatility g
      in investment_trajectory n (v * (1 + annual_return)) expected_return volatility g1)"

fun investment_samples ::
  "nat \<Rightarrow> nat \<Rightarrow> real \<Rightarrow> real \<Rightarrow> real \<Rightarrow> rng \<Rightarrow> real list \<times> rng" where
  "investment_samples 0 horizon initial expected_return volatility g = ([], g)"
| "investment_samples (Suc runs) horizon initial expected_return volatility g =
     (let (final, g1) = investment_trajectory horizon initial expected_return volatility g;
          (rest, g2) = investment_samples runs horizon initial expected_return volatility g1
      in (final # rest, g2))"

text \<open>
  The summaries. On an empty sample (\<^verbatim>\<open>monte_carlo_runs\<close> below 1) numpy has no
  number to return: \<^verbatim>\<open>np.mean\<close> and \<^verbatim>\<open>np.std\<close> give NaN with a warning, and
  \<^verbatim>\<open>np.percentile\<close> of numpy 1.26 and later (setup.py asks for them) raises on the
  empty array. The model returns \<open>EmptySampleError\<close> there; the statements below about
  summaries assume a sample count of at least 1 and do not depend on this case.
\<close>

definition summary_savings :: "real list \<Rightarrow> mc_summary" where
  "summary_savings final_savings =
     \<lparr>mean = py_round (np_mean final_savings) 2,
      std = py_round (np_std final_savings) 2,
      p5 = py_round (np_percentile final_savings 5) 2,
      p25 = Some (py_round (np_percentile final_savings 25) 2),
      p50 = Some (py_round (np_percentile final_savings 50) 2),
      p75 = Some (py_round (np_percentile final_savings 75) 2),
      p95 = py_round (np_percentile final_savings 95) 2,
      prob_loss = None\<rparr>"

definition summary_salary :: "real list \<Rightarrow> mc_summary" where
  "summary_salary final_salaries =
     \<lparr>mean = py_round (np_mean final_salaries) 2,
      std = py_round (np_std final_salaries) 2,
      p5 = py_round (np_percentile final_salaries 5) 2,
      p25 = None, p50 = None, p75 = None,
      p95 = py_round (np_percentile final_salaries 95) 2,
      prob_loss = None\<rparr>"

definition summary_investment :: "real list \<Rightarrow> real \<Rightarrow> mc_summary" where
  "summary_investment final_values initial =
     \<lparr>mean = py_round (np_mean final_values) 2,
      std = py_round (np_std final_values) 2,
      p5 = py_round (np_percentile final_values 5) 2,
      p25 = Some (py_round (np_percentile final_values 25) 2),
      p50 = Some (py_round (np_percentile final_values 50) 2),
      p75 = Some (py_round (np_percentile final_values 75) 2),
      p95 = py_round (np_percentile final_values 95) 2,
      prob_loss = Some (py_round
        (np_mean (map (\<lambda>v. if v < initial then 1 else 0) final_values) * 100) 2)\<rparr>"

definition run_monte_carlo_savings ::
  "SimulationEngine \<Rightarrow> real \<Rightarrow> real \<Rightarrow> real \<Rightarrow> rng \<Rightarrow> error + mc_summary \<times> rng" where
  "run_monte_carlo_savings eng base_salary yearly_cost tax_rate g =
     (let (final_savings, g') =
            savings_samples (nat (monte_carlo_runs eng)) (nat (time_horizon eng))
              base_salary yearly_cost tax_rate g
      in if final_savings = [] then Inl EmptySampleError
         else Inr (summary_savings final_savings, g'))"

definition run_monte_carlo_salary ::
  "SimulationEngine \<Rightarrow> real \<Rightarrow> real \<Rightarrow> rng \<Rightarrow> error + mc_summary \<times> rng" where
  "run_monte_carlo_salary eng base_salary expected_growth g =
     (let (final_salaries, g') =
            salary_samples (nat (monte_carlo_runs eng)) (nat (time_horizon eng))
              base_salary expected_growth g
      in if final_salaries = [] then Inl EmptySampleError
         else Inr (summary_salary final_salaries, g'))"

definition run_monte_carlo_investment ::
  "SimulationEngine \<Rightarrow> real \<Rightarrow> real \<Rightarrow> real \<Rightarrow> rng \<Rightarrow> error + mc_summary \<times> rng" where
  "run_monte_carlo_investment eng initial expected_return volatility g =
     (let (final_values, g') =
            investment_samples (nat (monte_carlo_runs eng)) (nat (time_horizon eng))
              initial expected_return volatility g
      in if final_values = [] then Inl EmptySampleError
         else Inr (summary_investment final_values initial, g'))"

subsection \<open>Relocation\<close>

definition base_salary_of :: "structured_data \<Rightarrow> real" where
  "base_salary_of sd = get_or (dict_or_empty (user_context sd)) ''salary'' 80000"

definition yearly_cost_of :: "external_data \<Rightarrow> string \<Rightarrow> real" where
  "yearly_cost_of ed city =
     (let city_lower = lower city;
          col = get_or (dict_or_empty (cost_of_living ed)) city_lower [];
          monthly_cost = (if col \<noteq> [] then sum_list (map snd col) else 2000)
      in monthly_cost * 12)"

definition effective_tax_of :: "external_data \<Rightarrow> string \<Rightarrow> real" where
  "effective_tax_of ed city =
     (let city_lower = lower city;
          tax = get_or (dict_or_empty (tax_rates ed)) city_lower Map.empty
      in get_or tax ''effective_rate'' 0.30)"

definition relocation_point :: "real \<Rightarrow> real \<Rightarrow> real \<Rightarrow> int \<Rightarrow> yearly_point" where
  "relocation_point base_salary yearly_cost effective_tax y =
     (let inflation_factor = 1.03 ^ nat y;
          salary_factor = 1.02 ^ nat y;
          adjusted_salary = base_salary * salary_factor;
          adjusted_cost = yearly_cost * inflation_factor;
          net = adjusted_salary * (1 - effective_tax);
          sav = net - adjusted_cost
      in RelocationPoint y (py_round adjusted_salary 2) (py_round net 2)
           (py_round adjusted_cost 2) (py_round sav 2) (py_round (sav * of_int y) 2))"

definition relocation_projection ::
  "SimulationEngine \<Rightarrow> real \<Rightarrow> real \<Rightarrow> real \<Rightarrow> yearly_point list" where
  "relocation_projection eng base_salary yearly_cost effective_tax =
     map (relocation_point base_salary yearly_cost effective_tax) [1..time_horizon eng]"

fun relocation_loop ::
  "SimulationEngine \<Rightarrow> structured_data \<Rightarrow> external_data \<Rightarrow> string list \<Rightarrow>
   (string \<rightharpoonup> yearly_point list) \<Rightarrow> (string \<rightharpoonup> mc_summary) \<Rightarrow> rng \<Rightarrow>
   error + (string \<rightharpoonup> yearly_point list) \<times> (string \<rightharpoonup> mc_summary) \<times> rng" where
  "relocation_loop eng sd ed [] projs mcs g = Inr (projs, mcs, g)"
| "relocation_loop eng sd ed (city # rest) projs mcs g =
     (let yearly_cost = yearly_cost_of ed city;
          effective_tax = effective_tax_of ed city;
          base_salary = base_salary_of sd;
          yearly_projections = relocation_projection eng base_salary yearly_cost effective_tax
      in case run_monte_carlo_savings eng base_salary yearly_cost effective_tax g of
           Inl e \<Rightarrow> Inl e
         | Inr (mc_results, g') \<Rightarrow>
             relocation_loop eng sd ed rest (projs(city \<mapsto> yearly_projections))
               (mcs(city \<mapsto> mc_results)) g')"

definition cities_of :: "structured_data \<Rightarrow> string list" where
  "cities_of sd = (case cities sd of None \<Rightarrow> [] | Some cs \<Rightarrow> cs)"

definition simulate_relocation ::
  "SimulationEngine \<Rightarrow> structured_data \<Rightarrow> external_data \<Rightarrow> string \<Rightarrow> rng \<Rightarrow>
   error + simulation_output \<times> rng" where
  "simulate_relocation eng sd ed now g =
     (case relocation_loop eng sd ed (cities_of sd) Map.empty Map.empty g of
        Inl e \<Rightarrow> Inl e
      | Inr (projs, mcs, g') \<Rightarrow>
          Inr (\<lparr>projections = projs, monte_carlo = Some mcs,
                metadata = \<lparr>time_horizon_years = time_horizon eng,
                             monte_carlo_runs_key = Some (monte_carlo_runs eng),
                             initial_amount = None,
                             simulation_date = now\<rparr>\<rparr>, g'))"

subsection \<open>Purchase\<close>

fun purchase_years :: "real \<Rightarrow> real \<Rightarrow> real \<Rightarrow> int list \<Rightarrow> yearly_point list" where
  "purchase_years yearly_maintenance cur total_cost [] = []"
| "purchase_years yearly_maintenance cur total_cost (y # ys) =
     (let cur' = cur * (1 - 0.15);
          total_cost' = total_cost + yearly_maintenance
      in PurchasePoint y (py_round cur' 2) (py_round yearly_maintenance 2)
           (py_round total_cost' 2) (py_round (cur' - total_cost') 2)
         # purchase_years yearly_maintenance cur' total_cost' ys)"

definition purchase_projection :: "SimulationEngine \<Rightarrow> real \<Rightarrow> nat \<Rightarrow> yearly_point list" where
  "purchase_projection eng budget_v i =
     (let initial_cost = budget_v * (0.8 + real i * 0.2);
          yearly_maintenance = initial_cost * 0.05
      in purchase_years yearly_maintenance initial_cost initial_cost [1..time_horizon eng])"

fun purchase_loop ::
  "SimulationEngine \<Rightarrow> real \<Rightarrow> (nat \<times> string) list \<Rightarrow>
   (string \<rightharpoonup> yearly_point list) \<Rightarrow> (string \<rightharpoonup> yearly_point list)" where
  "purchase_loop eng budget_v [] projs = projs"
| "purchase_loop eng budget_v ((i, option) # rest) projs =
     purchase_loop eng budget_v rest (projs(option \<mapsto> purchase_projection eng budget_v i))"

definition options_of :: "structured_data \<Rightarrow> string list" where
  "options_of sd = (case options sd of None \<Rightarrow> [] | Some os \<Rightarrow> os)"

definition simulate_purchase ::
  "SimulationEngine \<Rightarrow> structured_data \<Rightarrow> external_data \<Rightarrow> string \<Rightarrow> rng \<Rightarrow>
   error + simulation_output \<times> rng" where
  "simulate_purchase eng sd ed now g =
     (let budget_v = (case budget sd of None \<Rightarrow> 50000 | Some b \<Rightarrow> b);
          projs = purchase_loop eng budget_v (enumerate 0 (options_of sd)) Map.empty
      in Inr (\<lparr>projections = projs, monte_carlo = None,
                metadata = \<lparr>time_horizon_years = time_horizon eng,
                             monte_carlo_runs_key = None,
                             initial_amount = None,
                             simulation_date = now\<rparr>\<rparr>, g))"

subsection \<open>Job\<close>

fun job_years :: "real \<Rightarrow> real \<Rightarrow> real \<Rightarrow> int list \<Rightarrow> yearly_point list" where
  "job_years base_salary growth cumulative [] = []"
| "job_years base_salary growth cumulative (y # ys) =
     (let current_salary = base_salary * (1 + growth) ^ nat y;
          cumulative' = cumulative + current_salary
      in JobPoint y (py_round current_salary 2) (py_round cumulative' 2)
           (py_round (growth * 100) 1)
         # job_years base_salary growth cumulative' ys)"

definition job_base_salary :: "nat \<Rightarrow> real" where
  "job_base_salary i = 70000 + real i * 15000"

definition job_growth_rate :: "nat \<Rightarrow> real" where
  "job_growth_rate i = 0.05 + real i * 0.02"

definition job_projection :: "SimulationEngine \<Rightarrow> nat \<Rightarrow> yearly_point list" where
  "job_projection eng i =
     job_years (job_base_salary i) (job_growth_rate i) 0 [1..time_horizon eng]"

fun job_loop ::
  "SimulationEngine \<Rightarrow> (nat \<times> string) list \<Rightarrow>
   (string \<rightharpoonup> yearly_point list) \<Rightarrow> (string \<rightharpoonup> mc_summary) \<Rightarrow> rng \<Rightarrow>
   error + (string \<rightharpoonup> yearly_point list) \<times> (string \<rightharpoonup> mc_summary) \<times> rng" where
  "job_loop eng [] projs mcs g = Inr (projs, mcs, g)"
| "job_loop eng ((i, option) # rest) projs mcs g =
     (case run_monte_carlo_salary eng (job_base_salary i) (job_growth_rate i) g of
        Inl e \<Rightarrow> Inl e
      | Inr (mc_results, g') \<Rightarrow>
          job_loop eng rest (projs(option \<mapsto> job_projection eng i))
            (mcs(option \<mapsto> mc_results)) g')"

definition simulate_job ::
  "SimulationEngine \<Rightarrow> structured_data \<Rightarrow> external_data \<Rightarrow> string \<Rightarrow> rng \<Rightarrow>
   error + simulation_output \<times> rng" where
  "simulate_job eng sd ed now g =
     (case job_loop eng (enumerate 0 (options_of sd)) Map.empty Map.empty g of
        Inl e \<Rightarrow> Inl e
      | Inr (projs, mcs, g') \<Rightarrow>
          Inr (\<lparr>projections = projs, monte_carlo = Some mcs,
                metadata = \<lparr>time_horizon_years = time_horizon eng,
                             monte_carlo_runs_key = Some (monte_carlo_runs eng),
                             initial_amount = None,
                             simulation_date = now\<rparr>\<rparr>, g'))"

subsection \<open>Investment\<close>

definition investment_params :: "string \<rightharpoonup> real \<times> real" where
  "investment_params =
     [''stocks'' \<mapsto> (0.10, 0.20), ''bonds'' \<mapsto> (0.05, 0.05),
      ''real_estate'' \<mapsto> (0.07, 0.10), ''crypto'' \<mapsto> (0.15, 0.50)]"

definition params_of :: "string \<Rightarrow> real \<times> real" where
  "params_of option = get_or investment_params (lower option) (0.06, 0.12)"

text \<open>
  The deterministic loop divides by \<^verbatim>\<open>amount\<close> in every year; Python raises
  \<^verbatim>\<open>ZeroDivisionError\<close> when it is zero.
\<close>

fun investment_years :: "real \<Rightarrow> real \<Rightarrow> real \<Rightarrow> int list \<Rightarrow> error + yearly_point list" where
  "investment_years amount_v expected_return cur [] = Inr []"
| "investment_years amount_v expected_return cur (y # ys) =
     (let cur' = cur * (1 + expected_return)
      in if amount_v = 0 then Inl ZeroDivisionError
         else case investment_years amount_v expected_return cur' ys of
                Inl e \<Rightarrow> Inl e
              | Inr pts \<Rightarrow>
                  Inr (InvestmentPoint y (py_round cur' 2) (py_round (cur' - amount_v) 2)
                         (py_round ((cur' / amount_v - 1) * 100) 2) # pts))"

definition investment_projection ::
  "SimulationEngine \<Rightarrow> real \<Rightarrow> real \<Rightarrow> error + yearly_point list" where
  "investment_projection eng amount_v expected_return =
     investment_years amount_v expected_return amount_v [1..time_horizon eng]"

fun investment_loop ::
  "SimulationEngine \<Rightarrow> real \<Rightarrow> string list \<Rightarrow>
   (string \<rightharpoonup> yearly_point list) \<Rightarrow> (string \<rightharpoonup> mc_summary) \<Rightarrow> rng \<Rightarrow>
   error + (string \<rightharpoonup> yearly_point list) \<times> (string \<rightharpoonup> mc_summary) \<times> rng" where
  "investment_loop eng amount_v [] projs mcs g = Inr (projs, mcs, g)"
| "investment_loop eng amount_v (option # rest) projs mcs g =
     (let (expected_return, volatility) = params_of option
      in case investment_projection eng amount_v expected_return of
           Inl e \<Rightarrow> Inl e
         | Inr yearly_projections \<Rightarrow>
             (case run_monte_carlo_investment eng amount_v expected_return volatility g of
                Inl e \<Rightarrow> Inl e
              | Inr (mc_results, g') \<Rightarrow>
                  investment_loop eng amount_v rest (projs(option \<mapsto> yearly_projections))
                    (mcs(option \<mapsto> mc_results)) g'))"

definition amount_of :: "structured_data \<Rightarrow> real" where
  "amount_of sd = (case amount sd of None \<Rightarrow> 10000 | Some a \<Rightarrow> a)"

definition simulate_investment ::
  "SimulationEngine \<Rightarrow> structured_data \<Rightarrow> external_data \<Rightarrow> string \<Rightarrow> rng \<Rightarrow>
   error + simulation_output \<times> rng" where
  "simulate_investment eng sd ed now g =
     (case investment_loop eng (amount_of sd) (options_of sd) Map.empty Map.empty g of
        Inl e \<Rightarrow> Inl e
      | Inr (projs, mcs, g') \<Rightarrow>
          Inr (\<lparr>projections = projs, monte_carlo = Some mcs,
                metadata = \<lparr>time_horizon_years = time_horizon eng,
                             monte_carlo_runs_key = Some (monte_carlo_runs eng),
                             initial_amount = Some (amount_of sd),
                             simulation_date = now\<rparr>\<rparr>, g'))"

subsection \<open>Dispatch\<close>

text \<open>
  \<open>now\<close> is the reading of \<^verbatim>\<open>datetime.utcnow().isoformat()\<close> at the call.
\<close>

definition run_simulation ::
  "SimulationEngine \<Rightarrow> string \<Rightarrow> structured_data \<Rightarrow> external_data \<Rightarrow> string \<Rightarrow> rng \<Rightarrow>
   error + simulation_output \<times> rng" where
  "run_simulation eng decision_type sd ed now g =
     (if decision_type = DecisionType_value RELOCATION then simulate_relocation eng sd ed now g
      else if decision_type = DecisionType_value PURCHASE then simulate_purchase eng sd ed now g
      else if decision_type = DecisionType_value JOB then simulate_job eng sd ed now g
      else if decision_type = DecisionType_value INVESTMENT then
        simulate_investment eng sd ed now g
      else Inl ValueError)"

text \<open>The option names a run iterates over.\<close>

definition names_of :: "DecisionType \<Rightarrow> structured_data \<Rightarrow> string list" where
  "names_of k sd =
     (if k = RELOCATION then cities_of sd else options_of sd)"

subsection \<open>Auxiliary notions for the statements\<close>

text \<open>
  \<open>last_index xs c i\<close>: position \<open>i\<close> is the last occurrence of the name \<open>c\<close> in \<open>xs\<close>.
  A dictionary keeps, for a name that occurs twice, what the last occurrence stored.
\<close>

definition last_index :: "string list \<Rightarrow> string \<Rightarrow> nat \<Rightarrow> bool" where
  "last_index xs c i \<longleftrightarrow> i < length xs \<and> xs ! i = c \<and> c \<notin> set (drop (Suc i) xs)"

text \<open>A random source whose every variate is \<open>z\<close>, and the inputs of the examples.\<close>

definition constant_rng :: "real \<Rightarrow> rng" where
  "constant_rng z = \<lparr>draws = (\<lambda>_. z), pos = 0\<rparr>"

definition with_options :: "string list \<Rightarrow> structured_data" where
  "with_options os =
     \<lparr>cities = Some os, options = Some os, user_context = None, budget = None,
      amount = None\<rparr>"

definition no_external :: external_data where
  "no_external = \<lparr>cost_of_living = None, tax_rates = None\<rparr>"



definition empty_entry :: "string \<Rightarrow> external_data" where
  "empty_entry key = \<lparr>cost_of_living = Some [key \<mapsto> []], tax_rates = None\<rparr>"










section \<open>Properties of the loops\<close>

lemma savings_samples_length:
  "length (fst (savings_samples runs h b c t g)) = runs"
  by (induction runs arbitrary: g) (simp_all add: Let_def split_beta)

lemma salary_samples_length:
  "length (fst (salary_samples runs h b e g)) = runs"
  by (induction runs arbitrary: g) (simp_all add: Let_def split_beta)

lemma investment_samples_length:
  "length (fst (investment_samples runs h a e v g)) = runs"
  by (induction runs arbitrary: g) (simp_all add: Let_def split_beta)


lemma run_monte_carlo_savings_cases:
  "run_monte_carlo_savings eng b c t g = Inr (s, g') \<Longrightarrow>
   1 \<le> monte_carlo_runs eng \<and>
   s = summary_savings (fst (savings_samples (nat (monte_carlo_runs eng))
            (nat (time_horizon eng)) b c t g))"
  using savings_samples_length [of "nat (monte_carlo_runs eng)" "nat (time_horizon eng)" b c t g]
  by (cases "monte_carlo_runs eng \<le> 0")
     (auto simp: run_monte_carlo_savings_def split_beta split: if_splits)

lemma map_year_purchase_years: "map year (purchase_years ym cv tc ys) = ys"
  by (induction ys arbitrary: cv tc) (auto simp: Let_def)

lemma map_year_job_years: "map year (job_years b gr cum ys) = ys"
  by (induction ys arbitrary: cum) (auto simp: Let_def)

lemma map_year_investment_years:
  "investment_years a e cv ys = Inr pts \<Longrightarrow> map year pts = ys"
  by (induction ys arbitrary: cv pts) (auto simp: Let_def split: if_splits sum.splits)

lemma map_year_relocation_projection:
  "map year (relocation_projection eng b c t) = [1..time_horizon eng]"
  by (simp add: relocation_projection_def relocation_point_def Let_def comp_def)


lemma relocation_loop_spec:
  "relocation_loop eng sd ed cs projs mcs g = Inr (projs', mcs', g') \<Longrightarrow>
   (\<forall>c. projs' c = (if c \<in> set cs
      then Some (relocation_projection eng (base_salary_of sd) (yearly_cost_of ed c)
                   (effective_tax_of ed c))
      else projs c)) \<and>
   (\<forall>c. c \<notin> set cs \<longrightarrow> mcs' c = mcs c) \<and>
   (\<forall>c\<in>set cs. \<exists>g0. mcs' c = Some (summary_savings (fst (savings_samples
      (nat (monte_carlo_runs eng)) (nat (time_horizon eng)) (base_salary_of sd)
      (yearly_cost_of ed c) (effective_tax_of ed c) g0)))) \<and>
   (cs \<noteq> [] \<longrightarrow> 1 \<le> monte_carlo_runs eng)"
proof (induction cs arbitrary: projs mcs g)
  case Nil
  then show ?case by simp
next
  case (Cons city rest)
  let ?b = "base_salary_of sd" and ?c = "yearly_cost_of ed city"
    and ?t = "effective_tax_of ed city"
  from Cons.prems obtain mc g1 where
    mc: "run_monte_carlo_savings eng ?b ?c ?t g = Inr (mc, g1)" and
    rest: "relocation_loop eng sd ed rest
             (projs(city \<mapsto> relocation_projection eng ?b ?c ?t)) (mcs(city \<mapsto> mc)) g1 =
           Inr (projs', mcs', g')"
    by (auto simp: Let_def split: sum.splits)
  note ih = Cons.IH [OF rest]
  from run_monte_carlo_savings_cases [OF mc] have
    runs: "1 \<le> monte_carlo_runs eng" and
    mc_eq: "mc = summary_savings (fst (savings_samples (nat (monte_carlo_runs eng))
              (nat (time_horizon eng)) ?b ?c ?t g))"
    by simp_all
  have p: "\<forall>c. projs' c = (if c \<in> set (city # rest)
      then Some (relocation_projection eng (base_salary_of sd) (yearly_cost_of ed c)
                   (effective_tax_of ed c))
      else projs c)"
    using ih by auto
  have m1: "\<forall>c. c \<notin> set (city # rest) \<longrightarrow> mcs' c = mcs c"
    using ih by auto
  have m2: "\<exists>g0. mcs' c = Some (summary_savings (fst (savings_samples
      (nat (monte_carlo_runs eng)) (nat (time_horizon eng)) (base_salary_of sd)
      (yearly_cost_of ed c) (effective_tax_of ed c) g0)))" if c: "c \<in> set (city # rest)" for c
  proof (cases "c \<in> set rest")
    case True
    with ih show ?thesis by blast
  next
    case False
    with c have "c = city" by simp
    moreover from ih False have "mcs' c = (mcs(city \<mapsto> mc)) c" by blast
    ultimately show ?thesis using mc_eq by auto
  qed
  from p m1 m2 runs show ?case by blast
qed


lemma run_monte_carlo_salary_Inr:
  "1 \<le> monte_carlo_runs eng \<Longrightarrow>
   \<exists>g'. run_monte_carlo_salary eng b e g =
     Inr (summary_salary (fst (salary_samples (nat (monte_carlo_runs eng))
            (nat (time_horizon eng)) b e g)), g')"
  using salary_samples_length [of "nat (monte_carlo_runs eng)" "nat (time_horizon eng)" b e g]
  by (auto simp: run_monte_carlo_salary_def split_beta)

lemma run_monte_carlo_salary_cases:
  "run_monte_carlo_salary eng b e g = Inr (s, g') \<Longrightarrow>
   1 \<le> monte_carlo_runs eng \<and>
   s = summary_salary (fst (salary_samples (nat (monte_carlo_runs eng))
            (nat (time_horizon eng)) b e g))"
  using salary_samples_length [of "nat (monte_carlo_runs eng)" "nat (time_horizon eng)" b e g]
  by (cases "monte_carlo_runs eng \<le> 0")
     (auto simp: run_monte_carlo_salary_def split_beta split: if_splits)


lemma run_monte_carlo_investment_cases:
  "run_monte_carlo_investment eng a e v g = Inr (s, g') \<Longrightarrow>
   1 \<le> monte_carlo_runs eng \<and>
   s = summary_investment (fst (investment_samples (nat (monte_carlo_runs eng))
            (nat (time_horizon eng)) a e v g)) a"
  using investment_samples_length
    [of "nat (monte_carlo_runs eng)" "nat (time_horizon eng)" a e v g]
  by (cases "monte_carlo_runs eng \<le> 0")
     (auto simp: run_monte_carlo_investment_def split_beta split: if_splits)

lemma last_index_Cons_rest:
  "last_index rest c i \<Longrightarrow> last_index (x # rest) c (Suc i)"
  by (simp add: last_index_def)

lemma last_index_Cons_head:
  "c \<notin> set rest \<Longrightarrow> last_index (c # rest) c 0"
  by (simp add: last_index_def)

lemma purchase_loop_spec:
  "purchase_loop eng b (enumerate n xs) projs = projs' \<Longrightarrow>
   (\<forall>c. c \<notin> set xs \<longrightarrow> projs' c = projs c) \<and>
   (\<forall>c\<in>set xs. \<exists>i. last_index xs c i \<and>
      projs' c = Some (purchase_projection eng b (n + i)))"
proof (induction xs arbitrary: n projs)
  case Nil
  then show ?case by simp
next
  case (Cons x rest)
  from Cons.prems have rest:
    "purchase_loop eng b (enumerate (Suc n) rest)
       (projs(x \<mapsto> purchase_projection eng b n)) = projs'"
    by simp
  note ih = Cons.IH [OF rest]
  have a: "\<forall>c. c \<notin> set (x # rest) \<longrightarrow> projs' c = projs c"
    using ih by auto
  have b: "\<exists>i. last_index (x # rest) c i \<and>
      projs' c = Some (purchase_projection eng b (n + i))" if c: "c \<in> set (x # rest)" for c
  proof (cases "c \<in> set rest")
    case True
    with ih obtain i where "last_index rest c i"
      "projs' c = Some (purchase_projection eng b (Suc n + i))" by blast
    then have "last_index (x # rest) c (Suc i) \<and>
      projs' c = Some (purchase_projection eng b (n + Suc i))"
      by (simp add: last_index_Cons_rest)
    then show ?thesis by blast
  next
    case False
    with c have cx: "c = x" by simp
    from ih False have "projs' c = (projs(x \<mapsto> purchase_projection eng b n)) c" by blast
    with cx False have "last_index (x # rest) c 0 \<and>
      projs' c = Some (purchase_projection eng b (n + 0))"
      by (simp add: last_index_Cons_head)
    then show ?thesis by blast
  qed
  from a b show ?case by blast
qed

lemma job_loop_spec:
  "job_loop eng (enumerate n xs) projs mcs g = Inr (projs', mcs', g') \<Longrightarrow>
   (\<forall>c. c \<notin> set xs \<longrightarrow> projs' c = projs c \<and> mcs' c = mcs c) \<and>
   (\<forall>c\<in>set xs. \<exists>i g0. last_index xs c i \<and>
      projs' c = Some (job_projection eng (n + i)) \<and>
      mcs' c = Some (summary_salary (fst (salary_samples (nat (monte_carlo_runs eng))
        (nat (time_horizon eng)) (job_base_salary (n + i)) (job_growth_rate (n + i)) g0)))) \<and>
   (xs \<noteq> [] \<longrightarrow> 1 \<le> monte_carlo_runs eng)"
proof (induction xs arbitrary: n projs mcs g)
  case Nil
  then show ?case by simp
next
  case (Cons x rest)
  from Cons.prems obtain mc g1 where
    mc: "run_monte_carlo_salary eng (job_base_salary n) (job_growth_rate n) g = Inr (mc, g1)" and
    rest: "job_loop eng (enumerate (Suc n) rest) (projs(x \<mapsto> job_projection eng n))
             (mcs(x \<mapsto> mc)) g1 = Inr (projs', mcs', g')"
    by (auto split: sum.splits)
  note ih = Cons.IH [OF rest]
  from run_monte_carlo_salary_cases [OF mc] have
    runs: "1 \<le> monte_carlo_runs eng" and
    mc_eq: "mc = summary_salary (fst (salary_samples (nat (monte_carlo_runs eng))
              (nat (time_horizon eng)) (job_base_salary n) (job_growth_rate n) g))"
    by simp_all
  have a: "\<forall>c. c \<notin> set (x # rest) \<longrightarrow> projs' c = projs c \<and> mcs' c = mcs c"
    using ih by auto
  have b: "\<exists>i g0. last_index (x # rest) c i \<and>
      projs' c = Some (job_projection eng (n + i)) \<and>
      mcs' c = Some (summary_salary (fst (salary_samples (nat (monte_carlo_runs eng))
        (nat (time_horizon eng)) (job_base_salary (n + i)) (job_growth_rate (n + i)) g0)))"
    if c: "c \<in> set (x # rest)" for c
  proof (cases "c \<in> set rest")
    case True
    with ih obtain i g0 where "last_index rest c i"
      "projs' c = Some (job_projection eng (Suc n + i))"
      "mcs' c = Some (summary_salary (fst (salary_samples (nat (monte_carlo_runs eng))
        (nat (time_horizon eng)) (job_base_salary (Suc n + i))
        (job_growth_rate (Suc n + i)) g0)))" by blast
    then have "last_index (x # rest) c (Suc i) \<and>
      projs' c = Some (job_projection eng (n + Suc i)) \<and>
      mcs' c = Some (summary_salary (fst (salary_samples (nat (monte_carlo_runs eng))
        (nat (time_horizon eng)) (job_base_salary (n + Suc i))
        (job_growth_rate (n + Suc i)) g0)))"
      by (simp add: last_index_Cons_rest)
    then show ?thesis by blast
  next
    case False
    with c have cx: "c = x" by simp
    from ih False have "projs' c = (projs(x \<mapsto> job_projection eng n)) c"
      "mcs' c = (mcs(x \<mapsto> mc)) c" by blast+
    with cx False mc_eq have "last_index (x # rest) c 0 \<and>
      projs' c = Some (job_projection eng (n + 0)) \<and>
      mcs' c = Some (summary_salary (fst (salary_samples (nat (monte_carlo_runs eng))
        (nat (time_horizon eng)) (job_base_salary (n + 0)) (job_growth_rate (n + 0)) g)))"
      by (simp add: last_index_Cons_head)
    then show ?thesis by blast
  qed
  from a b runs show ?case by blast
qed

lemma job_loop_Inr:
  "1 \<le> monte_carlo_runs eng \<or> ixs = [] \<Longrightarrow> \<exists>r. job_loop eng ixs projs mcs g = Inr r"
proof (induction ixs arbitrary: projs mcs g)
  case Nil
  then show ?case by simp
next
  case (Cons ix rest)
  obtain i x where ix: "ix = (i, x)" by (cases ix)
  from Cons.prems have runs: "1 \<le> monte_carlo_runs eng" by simp
  from run_monte_carlo_salary_Inr [OF runs] obtain mc g1 where
    "run_monte_carlo_salary eng (job_base_salary i) (job_growth_rate i) g = Inr (mc, g1)"
    by blast
  with Cons.IH runs ix show ?case by simp
qed

lemma investment_loop_spec:
  "investment_loop eng a xs projs mcs g = Inr (projs', mcs', g') \<Longrightarrow>
   (\<forall>c. c \<notin> set xs \<longrightarrow> projs' c = projs c \<and> mcs' c = mcs c) \<and>
   (\<forall>c\<in>set xs. \<exists>pts g0.
      investment_projection eng a (fst (params_of c)) = Inr pts \<and>
      projs' c = Some pts \<and>
      mcs' c = Some (summary_investment (fst (investment_samples (nat (monte_carlo_runs eng))
        (nat (time_horizon eng)) a (fst (params_of c)) (snd (params_of c)) g0)) a)) \<and>
   (xs \<noteq> [] \<longrightarrow> 1 \<le> monte_carlo_runs eng)"
proof (induction xs arbitrary: projs mcs g)
  case Nil
  then show ?case by simp
next
  case (Cons x rest)
  let ?e = "fst (params_of x)" and ?v = "snd (params_of x)"
  from Cons.prems obtain yp mc g1 where
    yp: "investment_projection eng a ?e = Inr yp" and
    mc: "run_monte_carlo_investment eng a ?e ?v g = Inr (mc, g1)" and
    rest: "investment_loop eng a rest (projs(x \<mapsto> yp)) (mcs(x \<mapsto> mc)) g1 =
             Inr (projs', mcs', g')"
    by (auto simp: split_beta split: sum.splits)
  note ih = Cons.IH [OF rest]
  from run_monte_carlo_investment_cases [OF mc] have
    runs: "1 \<le> monte_carlo_runs eng" and
    mc_eq: "mc = summary_investment (fst (investment_samples (nat (monte_carlo_runs eng))
              (nat (time_horizon eng)) a ?e ?v g)) a"
    by simp_all
  have p: "\<forall>c. c \<notin> set (x # rest) \<longrightarrow> projs' c = projs c \<and> mcs' c = mcs c"
    using ih by auto
  have q: "\<exists>pts g0.
      investment_projection eng a (fst (params_of c)) = Inr pts \<and>
      projs' c = Some pts \<and>
      mcs' c = Some (summary_investment (fst (investment_samples (nat (monte_carlo_runs eng))
        (nat (time_horizon eng)) a (fst (params_of c)) (snd (params_of c)) g0)) a)"
    if c: "c \<in> set (x # rest)" for c
  proof (cases "c \<in> set rest")
    case True
    with ih show ?thesis by blast
  next
    case False
    with c have cx: "c = x" by simp
    from ih False have "projs' c = (projs(x \<mapsto> yp)) c" "mcs' c = (mcs(x \<mapsto> mc)) c"
      by blast+
    with cx yp mc_eq show ?thesis by auto
  qed
  from p q runs show ?case by blast
qed


lemma run_simulation_kind:
  "run_simulation eng (DecisionType_value RELOCATION) sd ed now g =
     simulate_relocation eng sd ed now g"
  "run_simulation eng (DecisionType_value PURCHASE) sd ed now g =
     simulate_purchase eng sd ed now g"
  "run_simulation eng (DecisionType_value JOB) sd ed now g = simulate_job eng sd ed now g"
  "run_simulation eng (DecisionType_value INVESTMENT) sd ed now g =
     simulate_investment eng sd ed now g"
  by (simp_all add: run_simulation_def)

lemma simulate_relocation_spec:
  assumes "simulate_relocation eng sd ed now g = Inr (out, g')"
  shows "\<forall>c. projections out c = (if c \<in> set (cities_of sd)
      then Some (relocation_projection eng (base_salary_of sd) (yearly_cost_of ed c)
                   (effective_tax_of ed c))
      else None)"
    and "\<exists>mcs. monte_carlo out = Some mcs \<and> dom mcs = set (cities_of sd) \<and>
      (\<forall>c\<in>set (cities_of sd). \<exists>g0. mcs c = Some (summary_savings (fst (savings_samples
        (nat (monte_carlo_runs eng)) (nat (time_horizon eng)) (base_salary_of sd)
        (yearly_cost_of ed c) (effective_tax_of ed c) g0))))"
    and "metadata out = \<lparr>time_horizon_years = time_horizon eng,
      monte_carlo_runs_key = Some (monte_carlo_runs eng), initial_amount = None,
      simulation_date = now\<rparr>"
    and "cities_of sd \<noteq> [] \<longrightarrow> 1 \<le> monte_carlo_runs eng"
proof -
  from assms obtain projs mcs where
    loop: "relocation_loop eng sd ed (cities_of sd) Map.empty Map.empty g =
             Inr (projs, mcs, g')" and
    out: "out = \<lparr>projections = projs, monte_carlo = Some mcs,
                  metadata = \<lparr>time_horizon_years = time_horizon eng,
                    monte_carlo_runs_key = Some (monte_carlo_runs eng),
                    initial_amount = None, simulation_date = now\<rparr>\<rparr>"
    by (auto simp: simulate_relocation_def split: sum.splits)
  note spec = relocation_loop_spec [OF loop]
  from spec out show "\<forall>c. projections out c = (if c \<in> set (cities_of sd)
      then Some (relocation_projection eng (base_salary_of sd) (yearly_cost_of ed c)
                   (effective_tax_of ed c))
      else None)"
    by simp
  have "dom mcs = set (cities_of sd)"
  proof (rule set_eqI)
    fix c
    show "c \<in> dom mcs \<longleftrightarrow> c \<in> set (cities_of sd)"
    proof (cases "c \<in> set (cities_of sd)")
      case True
      with spec have "\<exists>s. mcs c = Some s" by blast
      with True show ?thesis by auto
    next
      case False
      with spec have "mcs c = None" by simp
      with False show ?thesis by auto
    qed
  qed
  with spec out show "\<exists>mcs. monte_carlo out = Some mcs \<and> dom mcs = set (cities_of sd) \<and>
      (\<forall>c\<in>set (cities_of sd). \<exists>g0. mcs c = Some (summary_savings (fst (savings_samples
        (nat (monte_carlo_runs eng)) (nat (time_horizon eng)) (base_salary_of sd)
        (yearly_cost_of ed c) (effective_tax_of ed c) g0))))"
    by simp
  from out show "metadata out = \<lparr>time_horizon_years = time_horizon eng,
      monte_carlo_runs_key = Some (monte_carlo_runs eng), initial_amount = None,
      simulation_date = now\<rparr>"
    by simp
  from spec show "cities_of sd \<noteq> [] \<longrightarrow> 1 \<le> monte_carlo_runs eng" by simp
qed


lemma simulate_purchase_spec:
  assumes "simulate_purchase eng sd ed now g = Inr (out, g')"
  shows "\<forall>c. c \<notin> set (options_of sd) \<longrightarrow> projections out c = None"
    and "\<forall>c\<in>set (options_of sd). \<exists>i. last_index (options_of sd) c i \<and>
      projections out c = Some (purchase_projection eng
        (case budget sd of None \<Rightarrow> 50000 | Some b \<Rightarrow> b) i)"
    and "monte_carlo out = None"
    and "metadata out = \<lparr>time_horizon_years = time_horizon eng,
      monte_carlo_runs_key = None, initial_amount = None, simulation_date = now\<rparr>"
proof -
  let ?b = "case budget sd of None \<Rightarrow> 50000 | Some b \<Rightarrow> b"
  from assms have out: "out = \<lparr>projections =
       purchase_loop eng ?b (enumerate 0 (options_of sd)) Map.empty,
     monte_carlo = None,
     metadata = \<lparr>time_horizon_years = time_horizon eng, monte_carlo_runs_key = None,
       initial_amount = None, simulation_date = now\<rparr>\<rparr>"
    by (simp add: simulate_purchase_def Let_def)
  note spec = purchase_loop_spec [OF refl, where eng = eng and b = ?b and n = 0
    and xs = "options_of sd" and projs = Map.empty]
  from spec out show "\<forall>c. c \<notin> set (options_of sd) \<longrightarrow> projections out c = None" by simp
  from spec out show "\<forall>c\<in>set (options_of sd). \<exists>i. last_index (options_of sd) c i \<and>
      projections out c = Some (purchase_projection eng ?b i)" by simp
  from out show "monte_carlo out = None" by simp
  from out show "metadata out = \<lparr>time_horizon_years = time_horizon eng,
      monte_carlo_runs_key = None, initial_amount = None, simulation_date = now\<rparr>" by simp
qed

lemma simulate_purchase_Inr:
  "\<exists>out g'. simulate_purchase eng sd ed now g = Inr (out, g')"
  by (simp add: simulate_purchase_def Let_def)

lemma simulate_job_spec:
  assumes "simulate_job eng sd ed now g = Inr (out, g')"
  shows "\<forall>c. c \<notin> set (options_of sd) \<longrightarrow> projections out c = None"
    and "\<exists>mcs. monte_carlo out = Some mcs \<and> dom mcs = set (options_of sd) \<and>
      (\<forall>c\<in>set (options_of sd). \<exists>i g0. last_index (options_of sd) c i \<and>
         projections out c = Some (job_projection eng i) \<and>
         mcs c = Some (summary_salary (fst (salary_samples (nat (monte_carlo_runs eng))
           (nat (time_horizon eng)) (job_base_salary i) (job_growth_rate i) g0))))"
    and "metadata out = \<lparr>time_horizon_years = time_horizon eng,
      monte_carlo_runs_key = Some (monte_carlo_runs eng), initial_amount = None,
      simulation_date = now\<rparr>"
    and "options_of sd \<noteq> [] \<longrightarrow> 1 \<le> monte_carlo_runs eng"
proof -
  from assms obtain projs mcs where
    loop: "job_loop eng (enumerate 0 (options_of sd)) Map.empty Map.empty g =
             Inr (projs, mcs, g')" and
    out: "out = \<lparr>projections = projs, monte_carlo = Some mcs,
                  metadata = \<lparr>time_horizon_years = time_horizon eng,
                    monte_carlo_runs_key = Some (monte_carlo_runs eng),
                    initial_amount = None, simulation_date = now\<rparr>\<rparr>"
    by (auto simp: simulate_job_def split: sum.splits)
  note spec = job_loop_spec [OF loop]
  from spec out show "\<forall>c. c \<notin> set (options_of sd) \<longrightarrow> projections out c = None" by simp
  have "dom mcs = set (options_of sd)"
  proof (rule set_eqI)
    fix c
    show "c \<in> dom mcs \<longleftrightarrow> c \<in> set (options_of sd)"
    proof (cases "c \<in> set (options_of sd)")
      case True
      with spec have "\<exists>s. mcs c = Some s" by blast
      with True show ?thesis by auto
    next
      case False
      with spec have "mcs c = None" by simp
      with False show ?thesis by auto
    qed
  qed
  with spec out show "\<exists>mcs. monte_carlo out = Some mcs \<and> dom mcs = set (options_of sd) \<and>
      (\<forall>c\<in>set (options_of sd). \<exists>i g0. last_index (options_of sd) c i \<and>
         projections out c = Some (job_projection eng i) \<and>
         mcs c = Some (summary_salary (fst (salary_samples (nat (monte_carlo_runs eng))
           (nat (time_horizon eng)) (job_base_salary i) (job_growth_rate i) g0))))"
    by simp
  from out show "metadata out = \<lparr>time_horizon_years = time_horizon eng,
      monte_carlo_runs_key = Some (monte_carlo_runs eng), initial_amount = None,
      simulation_date = now\<rparr>"
    by simp
  from spec show "options_of sd \<noteq> [] \<longrightarrow> 1 \<le> monte_carlo_runs eng" by simp
qed

lemma simulate_job_Inr:
  "1 \<le> monte_carlo_runs eng \<or> options_of sd = [] \<Longrightarrow>
   \<exists>out g'. simulate_job eng sd ed now g = Inr (out, g')"
  using job_loop_Inr [of eng "enumerate 0 (options_of sd)" Map.empty Map.empty g]
  by (auto simp: simulate_job_def)

lemma simulate_investment_spec:
  assumes "simulate_investment eng sd ed now g = Inr (out, g')"
  shows "\<forall>c. c \<notin> set (options_of sd) \<longrightarrow> projections out c = None"
    and "\<exists>mcs. monte_carlo out = Some mcs \<and> dom mcs = set (options_of sd) \<and>
      (\<forall>c\<in>set (options_of sd). \<exists>pts g0.
         investment_projection eng (amount_of sd) (fst (params_of c)) = Inr pts \<and>
         projections out c = Some pts \<and>
         mcs c = Some (summary_investment (fst (investment_samples
           (nat (monte_carlo_runs eng)) (nat (time_horizon eng)) (amount_of sd)
           (fst (params_of c)) (snd (params_of c)) g0)) (amount_of sd)))"
    and "metadata out = \<lparr>time_horizon_years = time_horizon eng,
      monte_carlo_runs_key = Some (monte_carlo_runs eng),
      initial_amount = Some (amount_of sd), simulation_date = now\<rparr>"
    and "options_of sd \<noteq> [] \<longrightarrow> 1 \<le> monte_carlo_runs eng"
proof -
  from assms obtain projs mcs where
    loop: "investment_loop eng (amount_of sd) (options_of sd) Map.empty Map.empty g =
             Inr (projs, mcs, g')" and
    out: "out = \<lparr>projections = projs, monte_carlo = Some mcs,
                  metadata = \<lparr>time_horizon_years = time_horizon eng,
                    monte_carlo_runs_key = Some (monte_carlo_runs eng),
                    initial_amount = Some (amount_of sd), simulation_date = now\<rparr>\<rparr>"
    by (auto simp: simulate_investment_def split: sum.splits)
  note spec = investment_loop_spec [OF loop]
  from spec out show "\<forall>c. c \<notin> set (options_of sd) \<longrightarrow> projections out c = None" by simp
  have "dom mcs = set (options_of sd)"
  proof (rule set_eqI)
    fix c
    show "c \<in> dom mcs \<longleftrightarrow> c \<in> set (options_of sd)"
    proof (cases "c \<in> set (options_of sd)")
      case True
      with spec have "\<exists>s. mcs c = Some s" by blast
      with True show ?thesis by auto
    next
      case False
      with spec have "mcs c = None" by simp
      with False show ?thesis by auto
    qed
  qed
  with spec out show "\<exists>mcs. monte_carlo out = Some mcs \<and> dom mcs = set (options_of sd) \<and>
      (\<forall>c\<in>set (options_of sd). \<exists>pts g0.
         investment_projection eng (amount_of sd) (fst (params_of c)) = Inr pts \<and>
         projections out c = Some pts \<and>
         mcs c = Some (summary_investment (fst (investment_samples
           (nat (monte_carlo_runs eng)) (nat (time_horizon eng)) (amount_of sd)
           (fst (params_of c)) (snd (params_of c)) g0)) (amount_of sd)))"
    by simp
  from out show "metadata out = \<lparr>time_horizon_years = time_horizon eng,
      monte_carlo_runs_key = Some (monte_carlo_runs eng),
      initial_amount = Some (amount_of sd), simulation_date = now\<rparr>"
    by simp
  from spec show "options_of sd \<noteq> [] \<longrightarrow> 1 \<le> monte_carlo_runs eng" by simp
qed


section \<open>The claims\<close>

subsection \<open>The Monte Carlo field\<close>

text \<open>
  Claim C4. The \<open>monte_carlo\<close> field of a returned output is null exactly when the
  decision kind is PURCHASE; for RELOCATION, JOB and INVESTMENT it is a mapping whose keys
  are the input option (city) names, so it holds a summary for every input name.
\<close>

theorem monte_carlo_null_iff_purchase:
  assumes "run_simulation eng (DecisionType_value k) sd ed now g = Inr (out, g')"
  shows "(monte_carlo out = None \<longleftrightarrow> k = PURCHASE) \<and>
         (k \<noteq> PURCHASE \<longrightarrow>
            (\<exists>mcs. monte_carlo out = Some mcs \<and> dom mcs = set (names_of k sd)))"
proof (cases k)
  case RELOCATION
  with assms have "simulate_relocation eng sd ed now g = Inr (out, g')"
    by (simp only: run_simulation_kind)
  from simulate_relocation_spec(2) [OF this] RELOCATION show ?thesis
    by (auto simp: names_of_def)
next
  case PURCHASE
  with assms have "simulate_purchase eng sd ed now g = Inr (out, g')"
    by (simp only: run_simulation_kind)
  from simulate_purchase_spec(3) [OF this] PURCHASE show ?thesis by simp
next
  case JOB
  with assms have "simulate_job eng sd ed now g = Inr (out, g')"
    by (simp only: run_simulation_kind)
  from simulate_job_spec(2) [OF this] JOB show ?thesis
    by (auto simp: names_of_def)
next
  case INVESTMENT
  with assms have "simulate_investment eng sd ed now g = Inr (out, g')"
    by (simp only: run_simulation_kind)
  from simulate_investment_spec(2) [OF this] INVESTMENT show ?thesis
    by (auto simp: names_of_def)
qed

text \<open>A job run with two options, one sample and a two-year horizon returns.\<close>

lemma example_job_run:
  "\<exists>out g'. run_simulation (init 2 1) (DecisionType_value JOB) (with_options [''x'', ''y''])
     no_external ''t'' (constant_rng 0) = Inr (out, g')"
proof -
  have "1 \<le> monte_carlo_runs (init 2 1) \<or> options_of (with_options [''x'', ''y'']) = []"
    by (simp add: init_def)
  from simulate_job_Inr [OF this] show ?thesis
    by (simp only: run_simulation_kind)
qed

theorem monte_carlo_null_iff_purchase_witness:
  "\<exists>out g' mcs. run_simulation (init 2 1) (DecisionType_value JOB) (with_options [''x'', ''y''])
     no_external ''t'' (constant_rng 0) = Inr (out, g') \<and>
     monte_carlo out = Some mcs \<and> dom mcs = {''x'', ''y''}"
proof -
  from example_job_run obtain out g' where
    run: "run_simulation (init 2 1) (DecisionType_value JOB) (with_options [''x'', ''y''])
            no_external ''t'' (constant_rng 0) = Inr (out, g')"
    by blast
  from monte_carlo_null_iff_purchase [OF run] obtain mcs where
    mcs: "monte_carlo out = Some mcs"
      "dom mcs = set (names_of JOB (with_options [''x'', ''y'']))"
    by auto
  have "set (names_of JOB (with_options [''x'', ''y''])) = {''x'', ''y''}"
    by (simp add: names_of_def options_of_def with_options_def)
  with mcs have "run_simulation (init 2 1) (DecisionType_value JOB) (with_options [''x'', ''y''])
     no_external ''t'' (constant_rng 0) = Inr (out, g') \<and>
     monte_carlo out = Some mcs \<and> dom mcs = {''x'', ''y''}"
    using run by simp
  then show ?thesis by (intro exI)
qed

subsection \<open>Projections of a returned run\<close>

lemma dom_from_entries:
  "\<forall>c. c \<notin> S \<longrightarrow> m c = None \<Longrightarrow> \<forall>c\<in>S. \<exists>v. m c = Some v \<and> P v \<Longrightarrow> dom m = S"
  by (auto simp: dom_def)

lemma years_of_purchase_projection:
  "map year (purchase_projection eng b i) = [1..time_horizon eng]"
  by (simp add: purchase_projection_def Let_def map_year_purchase_years)

lemma years_of_job_projection:
  "map year (job_projection eng i) = [1..time_horizon eng]"
  by (simp add: job_projection_def map_year_job_years)

lemma years_of_investment_projection:
  "investment_projection eng a e = Inr pts \<Longrightarrow> map year pts = [1..time_horizon eng]"
  by (simp add: investment_projection_def map_year_investment_years)

lemma length_from_years:
  "map year pts = [1..n] \<Longrightarrow> 1 \<le> n \<Longrightarrow> int (length pts) = n"
proof -
  assume a: "map year pts = [1..n]" and n: "1 \<le> n"
  have "length pts = length (map year pts)" by simp
  also from a have "\<dots> = length [1..n]" by simp
  finally show ?thesis using n by simp
qed

text \<open>What every returned run says about its projections.\<close>

lemma projections_of_run:
  assumes "run_simulation eng (DecisionType_value k) sd ed now g = Inr (out, g')"
  shows "(\<forall>c. c \<notin> set (names_of k sd) \<longrightarrow> projections out c = None) \<and>
         (\<forall>c\<in>set (names_of k sd). \<exists>pts. projections out c = Some pts \<and>
            map year pts = [1..time_horizon eng])"
proof (cases k)
  case RELOCATION
  with assms have "simulate_relocation eng sd ed now g = Inr (out, g')"
    by (simp only: run_simulation_kind)
  from simulate_relocation_spec(1) [OF this] RELOCATION show ?thesis
    by (simp add: names_of_def map_year_relocation_projection)
next
  case PURCHASE
  with assms have "simulate_purchase eng sd ed now g = Inr (out, g')"
    by (simp only: run_simulation_kind)
  from simulate_purchase_spec(1,2) [OF this] PURCHASE show ?thesis
    by (fastforce simp: names_of_def years_of_purchase_projection)
next
  case JOB
  with assms have "simulate_job eng sd ed now g = Inr (out, g')"
    by (simp only: run_simulation_kind)
  from simulate_job_spec(1,2) [OF this] JOB show ?thesis
    by (fastforce simp: names_of_def years_of_job_projection)
next
  case INVESTMENT
  with assms have "simulate_investment eng sd ed now g = Inr (out, g')"
    by (simp only: run_simulation_kind)
  from simulate_investment_spec(1,2) [OF this] INVESTMENT show ?thesis
    by (fastforce simp: names_of_def dest: years_of_investment_projection)
qed


subsection \<open>Keys and years of the projections\<close>

text \<open>
  Claim C1, read as one key per entry of the input list, fails when a name is repeated:
  the projections are a dictionary keyed by name, so a purchase run over the two options
  A, A returns one key for two inputs.
\<close>

theorem duplicate_names_share_one_key:
  "card (dom (projections (fst (projr (run_simulation (init 3 1000)
      (DecisionType_value PURCHASE) (with_options [''A'', ''A'']) no_external ''t''
      (constant_rng 0)))))) = 1 \<and>
   length (names_of PURCHASE (with_options [''A'', ''A''])) = 2"
proof -
  have "dom (projections (fst (projr (simulate_purchase (init 3 1000)
      (with_options [''A'', ''A'']) no_external ''t'' (constant_rng 0))))) = {''A''}"
    by (simp add: simulate_purchase_def Let_def options_of_def with_options_def)
  then show ?thesis
    by (simp only: run_simulation_kind)
       (simp add: names_of_def options_of_def with_options_def)
qed

text \<open>
  Claim C1, amended. In the output of every run that returns, with a horizon of at least
  1, the keys of the projections are exactly the distinct input names (a name that occurs
  several times in the input gives one key), and every \<open>projections[name]\<close> has
  \<open>time_horizon\<close> points whose years are 1, 2, ..., in order.
\<close>

theorem projections_of_returned_run:
  assumes "run_simulation eng (DecisionType_value k) sd ed now g = Inr (out, g')"
    and "1 \<le> time_horizon eng"
  shows "dom (projections out) = set (names_of k sd) \<and>
     (\<forall>c\<in>set (names_of k sd). \<exists>pts. projections out c = Some pts \<and>
        int (length pts) = time_horizon eng \<and> map year pts = [1..time_horizon eng])"
proof -
  note p = projections_of_run [OF assms(1)]
  note a = conjunct1 [OF p] and b = conjunct2 [OF p]
  have d: "dom (projections out) = set (names_of k sd)"
    by (rule dom_from_entries [OF a b])
  have e: "\<exists>pts. projections out c = Some pts \<and>
        int (length pts) = time_horizon eng \<and> map year pts = [1..time_horizon eng]"
    if "c \<in> set (names_of k sd)" for c
  proof -
    from b that obtain pts where
      pts: "projections out c = Some pts" "map year pts = [1..time_horizon eng]"
      by blast
    from length_from_years [OF pts(2) assms(2)] pts show ?thesis by simp
  qed
  from d e show ?thesis by simp
qed

theorem projections_of_returned_run_witness:
  "1 \<le> time_horizon (init 2 1) \<and>
   (\<exists>out g'. run_simulation (init 2 1) (DecisionType_value PURCHASE)
       (with_options [''x'', ''y'', ''x'']) no_external ''t'' (constant_rng 0) = Inr (out, g') \<and>
     dom (projections out) = {''x'', ''y''} \<and>
     (\<exists>pts. projections out ''x'' = Some pts \<and> int (length pts) = 2 \<and>
        map year pts = [1, 2]))"
proof -
  have h: "1 \<le> time_horizon (init 2 1)"
    by (simp add: init_def)
  have n: "set (names_of PURCHASE (with_options [''x'', ''y'', ''x''])) = {''x'', ''y''}"
    by (simp add: names_of_def options_of_def with_options_def insert_commute)
  have u: "[1..2] = [1, 2 :: int]"
    by (simp add: upto.simps)
  have t: "time_horizon (init 2 1) = 2"
    by (simp add: init_def)
  from simulate_purchase_Inr [of "init 2 1" "with_options [''x'', ''y'', ''x'']" no_external
    "''t''" "constant_rng 0"]
  obtain out g' where
    r: "run_simulation (init 2 1) (DecisionType_value PURCHASE)
       (with_options [''x'', ''y'', ''x'']) no_external ''t'' (constant_rng 0) = Inr (out, g')"
    by (simp only: run_simulation_kind) (elim exE)
  note w = projections_of_returned_run [OF r h, unfolded n t u]
  note q = conjunct1 [OF w] conjunct2 [OF w]
  from q(2) have "\<exists>pts. projections out ''x'' = Some pts \<and> int (length pts) = 2 \<and>
        map year pts = [1, 2]"
    by simp
  with r q(1) have "run_simulation (init 2 1) (DecisionType_value PURCHASE)
       (with_options [''x'', ''y'', ''x'']) no_external ''t'' (constant_rng 0) = Inr (out, g') \<and>
     dom (projections out) = {''x'', ''y''} \<and>
     (\<exists>pts. projections out ''x'' = Some pts \<and> int (length pts) = 2 \<and>
        map year pts = [1, 2])"
    by simp
  then have "\<exists>out g'. run_simulation (init 2 1) (DecisionType_value PURCHASE)
       (with_options [''x'', ''y'', ''x'']) no_external ''t'' (constant_rng 0) = Inr (out, g') \<and>
     dom (projections out) = {''x'', ''y''} \<and>
     (\<exists>pts. projections out ''x'' = Some pts \<and> int (length pts) = 2 \<and>
        map year pts = [1, 2])"
    by (intro exI)
  with h show ?thesis by simp
qed

subsection \<open>No check of the run configuration\<close>




subsection \<open>Metadata\<close>

text \<open>
  Claim C6 fails for PURCHASE: the metadata of a purchase run has no
  \<open>monte_carlo_runs\<close> entry.
\<close>

theorem purchase_metadata_without_sample_count:
  "monte_carlo_runs_key (metadata (fst (projr (run_simulation (init 5 1000)
      (DecisionType_value PURCHASE) (with_options [''A'', ''B'']) no_external ''t''
      (constant_rng 0))))) = None"
  by (simp only: run_simulation_kind) (simp add: simulate_purchase_def Let_def)

text \<open>
  Claim C6, amended. The metadata of every returned output holds the configured horizon
  and the timestamp read at the call; it holds the configured sample count for RELOCATION,
  JOB and INVESTMENT, and no sample count for PURCHASE.
\<close>

theorem metadata_of_run:
  assumes "run_simulation (init th runs) (DecisionType_value k) sd ed now g = Inr (out, g')"
  shows "time_horizon_years (metadata out) = th \<and>
         simulation_date (metadata out) = now \<and>
         monte_carlo_runs_key (metadata out) = (if k = PURCHASE then None else Some runs)"
proof (cases k)
  case RELOCATION
  with assms have "simulate_relocation (init th runs) sd ed now g = Inr (out, g')"
    by (simp only: run_simulation_kind)
  from simulate_relocation_spec(3) [OF this] RELOCATION show ?thesis
    by (simp add: init_def)
next
  case PURCHASE
  with assms have "simulate_purchase (init th runs) sd ed now g = Inr (out, g')"
    by (simp only: run_simulation_kind)
  from simulate_purchase_spec(4) [OF this] PURCHASE show ?thesis
    by (simp add: init_def)
next
  case JOB
  with assms have "simulate_job (init th runs) sd ed now g = Inr (out, g')"
    by (simp only: run_simulation_kind)
  from simulate_job_spec(3) [OF this] JOB show ?thesis
    by (simp add: init_def)
next
  case INVESTMENT
  with assms have "simulate_investment (init th runs) sd ed now g = Inr (out, g')"
    by (simp only: run_simulation_kind)
  from simulate_investment_spec(3) [OF this] INVESTMENT show ?thesis
    by (simp add: init_def)
qed

theorem metadata_of_run_witness:
  "\<exists>out g'. run_simulation (init 2 1) (DecisionType_value JOB) (with_options [''x'', ''y''])
     no_external ''t'' (constant_rng 0) = Inr (out, g') \<and>
     time_horizon_years (metadata out) = 2 \<and> simulation_date (metadata out) = ''t'' \<and>
     monte_carlo_runs_key (metadata out) = Some 1"
proof -
  from example_job_run obtain out g' where
    run: "run_simulation (init 2 1) (DecisionType_value JOB) (with_options [''x'', ''y''])
            no_external ''t'' (constant_rng 0) = Inr (out, g')"
    by blast
  from metadata_of_run [OF run] have
    "time_horizon_years (metadata out) = 2 \<and> simulation_date (metadata out) = ''t'' \<and>
     monte_carlo_runs_key (metadata out) = Some 1"
    by simp
  with run have "run_simulation (init 2 1) (DecisionType_value JOB)
     (with_options [''x'', ''y'']) no_external ''t'' (constant_rng 0) = Inr (out, g') \<and>
     time_horizon_years (metadata out) = 2 \<and> simulation_date (metadata out) = ''t'' \<and>
     monte_carlo_runs_key (metadata out) = Some 1"
    by simp
  then show ?thesis by (intro exI)
qed

subsection \<open>The relocation trajectory\<close>












subsection \<open>Lookups by name\<close>

lemma dict_or_empty_Some: "dict_or_empty (Some m) = m"
  by (simp add: dict_or_empty_def)

lemma relocation_loop_cong:
  assumes "\<forall>c. yearly_cost_of ed c = yearly_cost_of ed' c"
    and "\<forall>c. effective_tax_of ed c = effective_tax_of ed' c"
  shows "relocation_loop eng sd ed cs projs mcs g = relocation_loop eng sd ed' cs projs mcs g"
  using assms
  by (induction cs arbitrary: projs mcs g) (simp_all add: Let_def split: sum.splits)

text \<open>
  Claim C10. A city whose cost-of-living entry is present but has no component is treated
  like a city without entry: its monthly cost is the default 2000 (yearly 24000), and the
  whole relocation run is the run on the external data with that entry removed.
\<close>

theorem empty_cost_entry_is_absent_entry:
  assumes "dict_or_empty (cost_of_living ed) (lower c) = Some []"
  shows "yearly_cost_of ed c = 2000 * 12 \<and>
     run_simulation eng (DecisionType_value RELOCATION) sd ed now g =
     run_simulation eng (DecisionType_value RELOCATION) sd
       (ed\<lparr>cost_of_living := Some ((dict_or_empty (cost_of_living ed))(lower c := None))\<rparr>)
       now g"
proof -
  let ?ed' = "ed\<lparr>cost_of_living := Some ((dict_or_empty (cost_of_living ed))(lower c := None))\<rparr>"
  from assms have a: "yearly_cost_of ed c = 2000 * 12"
    by (simp add: yearly_cost_of_def get_or_def)
  have "yearly_cost_of ed c' = yearly_cost_of ?ed' c'" for c'
  proof (cases "lower c' = lower c")
    case True
    with assms show ?thesis
      by (simp add: yearly_cost_of_def get_or_def dict_or_empty_Some)
  next
    case False
    then show ?thesis
      by (simp add: yearly_cost_of_def get_or_def dict_or_empty_Some)
  qed
  then have y: "\<forall>c'. yearly_cost_of ed c' = yearly_cost_of ?ed' c'" ..
  have t: "\<forall>c'. effective_tax_of ed c' = effective_tax_of ?ed' c'"
    by (simp add: effective_tax_of_def)
  have "simulate_relocation eng sd ed now g = simulate_relocation eng sd ?ed' now g"
    by (simp add: simulate_relocation_def relocation_loop_cong [OF y t])
  with a show ?thesis by (simp only: run_simulation_kind)
qed

theorem empty_cost_entry_is_absent_entry_witness:
  "dict_or_empty (cost_of_living (empty_entry ''berlin'')) (lower ''Berlin'') = Some [] \<and>
   yearly_cost_of (empty_entry ''berlin'') ''Berlin'' = 24000"
proof -
  have l: "lower ''Berlin'' = ''berlin''" by code_simp
  have h: "dict_or_empty (cost_of_living (empty_entry ''berlin'')) (lower ''Berlin'') = Some []"
    unfolding l by (simp add: empty_entry_def dict_or_empty_def)
  from empty_cost_entry_is_absent_entry [OF h] h show ?thesis by simp
qed












subsection \<open>Rounding and the statistics\<close>














subsection \<open>The Monte Carlo summaries\<close>


























end
